theory Spec2Isabelle
  imports Complex_Main "HOL-Library.Word"
begin

section \<open>The values the handler computes with\<close>

text \<open>
  The repository is one Cloudflare Worker, \<^verbatim>\<open>fetch(request, env, ctx)\<close>, in two variants:
  \<^verbatim>\<open>src/index.ts\<close> prices an order against the liquidity pool alone (direct mode), and the
  second file reads a Chainlink rate as well (oracle-adjusted mode).  The request body is
  \<^verbatim>\<open>any\<close> JSON, so its fields are JavaScript values.
\<close>

subsection \<open>Numbers\<close>

text \<open>
  A JavaScript number is an IEEE 754 binary64 value.  \<open>Finite m e\<close> stands for
  \<open>m * 2 ^ e\<close>; the two zeros are not told apart (nothing the handler does
  observes the sign of a zero).
\<close>

datatype jsnum = NaN | PosInf | NegInf | Finite int int

definition num :: "int \<Rightarrow> jsnum" where
  "num n = Finite n 0"

text \<open>\<open>shift n k\<close> is \<open>n * 2 ^ k\<close> for \<open>k \<ge> 0\<close> and \<open>n\<close> otherwise, so that
  \<open>Finite m e\<close> is the fraction \<open>shift m e / shift 1 (- e)\<close>.\<close>

definition shift :: "int \<Rightarrow> int \<Rightarrow> int" where
  "shift n k = (if 0 \<le> k then n * 2 ^ nat k else n)"

function bit_length :: "int \<Rightarrow> int" where
  "bit_length n = (if n \<le> 0 then 0 else 1 + bit_length (n div 2))"
  by pat_completeness auto
termination
  by (relation "measure nat") auto

declare bit_length.simps [simp del]

text \<open>The binary exponent of the positive fraction \<open>n / d\<close>: the \<open>e\<close> with
  \<open>2 ^ e \<le> n / d < 2 ^ (e + 1)\<close>.\<close>

definition exponent_of :: "int \<Rightarrow> int \<Rightarrow> int" where
  "exponent_of n d =
     (let k = bit_length n - bit_length d
      in if shift d k \<le> shift n (- k) then k else k - 1)"

text \<open>The integer nearest to \<open>n / d\<close> (\<open>d > 0\<close>), ties to the even one.\<close>

definition round_half_even :: "int \<Rightarrow> int \<Rightarrow> int" where
  "round_half_even n d =
     (let f = n div d; r = n mod d
      in if 2 * r < d then f
         else if d < 2 * r then f + 1
         else if even f then f else f + 1)"

text \<open>
  Rounding the exact fraction \<open>n / d\<close> (\<open>d > 0\<close>) to binary64, round-to-nearest-even:
  53 significant bits, gradual underflow below \<open>2 ^ (- 1022)\<close>, and an infinity once the
  rounded value reaches \<open>2 ^ 1024\<close>, that is when the unit in the last place \<open>2 ^ s\<close>
  has \<open>s > 971\<close>, or \<open>s = 971\<close> and the significand was rounded up to \<open>2 ^ 53\<close>.
\<close>

definition fl :: "int \<Rightarrow> int \<Rightarrow> jsnum" where
  "fl n d =
     (if n = 0 then Finite 0 0
      else
        let e = max (exponent_of \<bar>n\<bar> d) (- 1022);
            s = e - 52;
            q = round_half_even (shift n (- s)) (shift d s)
        in if 971 < s \<or> (s = 971 \<and> 2 ^ 53 \<le> \<bar>q\<bar>)
           then (if 0 < n then PosInf else NegInf)
           else Finite q s)"

text \<open>The three arithmetic steps of the offset multiplier, each with a positive integer
  constant as the code has it: \<^verbatim>\<open>x / 100\<close>, \<^verbatim>\<open>1 + x\<close> and \<^verbatim>\<open>x * 10000\<close>.\<close>

fun js_div_const :: "jsnum \<Rightarrow> int \<Rightarrow> jsnum" where
  "js_div_const (Finite m e) c = fl (shift m e) (shift c (- e))"
| "js_div_const x c = x"

fun js_add_const :: "int \<Rightarrow> jsnum \<Rightarrow> jsnum" where
  "js_add_const c (Finite m e) = fl (shift c (- e) + shift m e) (shift 1 (- e))"
| "js_add_const c x = x"

fun js_mul_const :: "jsnum \<Rightarrow> int \<Rightarrow> jsnum" where
  "js_mul_const (Finite m e) c = fl (shift (m * c) e) (shift 1 (- e))"
| "js_mul_const x c = x"

fun Math_floor :: "jsnum \<Rightarrow> jsnum" where
  "Math_floor (Finite m e) = Finite (shift m e div shift 1 (- e)) 0"
| "Math_floor x = x"

subsection \<open>Exceptions and BigInt\<close>

text \<open>
  \<open>Error msg\<close> is an \<^verbatim>\<open>Error\<close> carrying a message: the one the handler throws itself,
  or one an external call rejects with.  \<open>TypeError\<close> and \<open>RangeError\<close> are raised by
  the language (destructuring \<^verbatim>\<open>null\<close>, a BigInt division by zero, \<^verbatim>\<open>BigInt\<close> of a number
  that is not an integer); their message texts belong to the engine.
\<close>

datatype exn = Error string | TypeError | RangeError

fun BigInt :: "jsnum \<Rightarrow> exn + int" where
  "BigInt (Finite m e) =
     (if shift m e mod shift 1 (- e) = 0 then Inr (shift m e div shift 1 (- e))
      else Inl RangeError)"
| "BigInt x = Inl RangeError"

text \<open>BigInt \<^verbatim>\<open>/\<close> discards the fractional part of the quotient (it rounds towards
  zero) and throws a RangeError on a zero divisor.\<close>

definition quot :: "int \<Rightarrow> int \<Rightarrow> int" where
  "quot a b = (if (a < 0) = (b < 0) then \<bar>a\<bar> div \<bar>b\<bar> else - (\<bar>a\<bar> div \<bar>b\<bar>))"

definition bigint_div :: "int \<Rightarrow> int \<Rightarrow> exn + int" where
  "bigint_div a b = (if b = 0 then Inl RangeError else Inr (quot a b))"

subsection \<open>JSON values\<close>

datatype jsval =
    JUndefined
  | JNull
  | JBool bool
  | JNum jsnum
  | JStr string
  | JArr "jsval list"
  | JObj "(string \<times> jsval) list"

text \<open>What \<^verbatim>\<open>!v\<close> negates: \<^verbatim>\<open>undefined\<close>, \<^verbatim>\<open>null\<close>, \<^verbatim>\<open>false\<close>, \<^verbatim>\<open>0\<close>, \<^verbatim>\<open>NaN\<close> and
  \<^verbatim>\<open>""\<close> are falsy, everything else is truthy.\<close>

fun truthy :: "jsval \<Rightarrow> bool" where
  "truthy JUndefined = False"
| "truthy JNull = False"
| "truthy (JBool b) = b"
| "truthy (JNum NaN) = False"
| "truthy (JNum (Finite m e)) = (m \<noteq> 0)"
| "truthy (JNum x) = True"
| "truthy (JStr s) = (s \<noteq> [])"
| "truthy (JArr xs) = True"
| "truthy (JObj kvs) = True"

text \<open>Reading a property while destructuring: \<^verbatim>\<open>null\<close> and \<^verbatim>\<open>undefined\<close> cannot be
  destructured; an object yields the property or \<^verbatim>\<open>undefined\<close>; the other values have
  none of the four properties the handler asks for.\<close>

fun property :: "jsval \<Rightarrow> string \<Rightarrow> exn + jsval" where
  "property JUndefined k = Inl TypeError"
| "property JNull k = Inl TypeError"
| "property (JObj kvs) k = Inr (case map_of kvs k of None \<Rightarrow> JUndefined | Some v \<Rightarrow> v)"
| "property v k = Inr JUndefined"

subsection \<open>Strings\<close>

text \<open>\<^verbatim>\<open>toLowerCase\<close> on the ASCII range, which is where chain addresses
  (\<^verbatim>\<open>0x\<close> and forty hexadecimal digits) live.\<close>

definition lower_char :: "char \<Rightarrow> char" where
  "lower_char c =
     (if 65 \<le> (of_char c :: nat) \<and> (of_char c :: nat) \<le> 90
      then char_of (of_char c + 32 :: nat) else c)"

definition toLowerCase :: "string \<Rightarrow> string" where
  "toLowerCase s = map lower_char s"


section \<open>The handler's surroundings\<close>

subsection \<open>Configuration and request\<close>

record Env =
  API_KEY :: string
  PRIVATE_KEY :: string
  CHAIN_ID :: string
  BSC_RPC :: string
  ETH_RPC :: string
  ALX_CONTRACT_ADDRESS :: string
  USDT_CONTRACT_ADDRESS :: string
  PAIR_ADDRESS :: string
  CHAINLINK_ORACLE_ADDRESS :: string

text \<open>
  What the handler reads of a request: the \<^verbatim>\<open>X-API-KEY\<close> header (\<open>None\<close> when
  \<^verbatim>\<open>headers.get\<close> yields \<^verbatim>\<open>null\<close>), the method, the path and the \<^verbatim>\<open>order\<close> query parameter of
  the URL, and the outcome of \<^verbatim>\<open>request.json()\<close>, which throws on a body that is not JSON.
\<close>

record request =
  X_API_KEY :: "string option"
  http_method :: string
  pathname :: string
  order_param :: "string option"
  json :: "exn + jsval"

subsection \<open>Responses\<close>

text \<open>A response body is the JSON value handed to \<^verbatim>\<open>jsonResp\<close>, or, from the
  \<^verbatim>\<open>catch\<close> branch, the report \<^verbatim>\<open>{ error: e.message, stack: e.stack }\<close> of an exception.\<close>

datatype body = Json jsval | Report exn

datatype response = Response nat body

definition jsonResp :: "body \<Rightarrow> nat \<Rightarrow> response" where
  "jsonResp data status = Response status data"

fun status_of :: "response \<Rightarrow> nat" where
  "status_of (Response status data) = status"

subsection \<open>The world outside the sources\<close>

text \<open>
  Nothing of viem, of the JavaScript library or of the two chains is part of the
  repository.  The handler is therefore a function of a \<open>world\<close>, which says how each
  of those calls answers:
  \<^item> \<open>Number_toString\<close>, \<open>Object_toString\<close>: \<^verbatim>\<open>toString()\<close> of a number, of an array or object;
  \<^item> \<open>StringToNumber\<close>: \<^verbatim>\<open>Number\<close> of a string;
  \<^item> \<open>kv_key\<close>: the key string the KV binding makes of a key that is not a string;
  \<^item> \<open>parseEther\<close>, \<open>formatUnits\<close>, \<open>privateKeyToAccount\<close>: the viem functions of these names;
  \<^item> \<open>read_getReserves\<close>, \<open>read_token0\<close>, \<open>read_latestRoundData\<close>: the outcome of
    \<^verbatim>\<open>readContract\<close> for that function on a chain and contract address;
  \<^item> \<open>write_transfer\<close>: the outcome of \<^verbatim>\<open>writeContract\<close> for \<^verbatim>\<open>transfer(to, amount)\<close> on a
    chain and token contract, signed by an account;
  \<^item> \<open>Date_now\<close>: the clock.
  A call that rejects or throws answers \<open>Inl\<close>.
\<close>

datatype chain = Bsc | BscTestnet | Mainnet

record world =
  Number_toString :: "jsnum \<Rightarrow> string"
  Object_toString :: "jsval \<Rightarrow> string"
  StringToNumber :: "string \<Rightarrow> jsnum"
  kv_key :: "jsval \<Rightarrow> string"
  parseEther :: "string \<Rightarrow> exn + int"
  formatUnits :: "int \<Rightarrow> nat \<Rightarrow> string"
  privateKeyToAccount :: "string \<Rightarrow> exn + string"
  read_getReserves :: "chain \<Rightarrow> string \<Rightarrow> exn + (112 word \<times> 112 word \<times> 32 word)"
  read_token0 :: "chain \<Rightarrow> string \<Rightarrow> exn + string"
  read_latestRoundData ::
    "chain \<Rightarrow> string \<Rightarrow> exn + (80 word \<times> 256 word \<times> 256 word \<times> 256 word \<times> 80 word)"
  write_transfer :: "chain \<Rightarrow> string \<Rightarrow> string \<Rightarrow> jsval \<Rightarrow> int \<Rightarrow> exn + string"
  Date_now :: jsnum

text \<open>
  The side effects of one request, in the order the handler issues them: reads and
  writes of the KV namespace \<^verbatim>\<open>env.DB\<close>, contract reads, and the submission of a
  transfer (\<open>Transfer chain token to amount\<close>, recorded whether or not the network
  accepts it).
\<close>

datatype event =
    KV_get string
  | KV_put string jsval
  | Read chain string string
  | Transfer chain string jsval int

text \<open>The two effects the claims single out: a transfer submission and a store write.\<close>

fun submits :: "event \<Rightarrow> bool" where
  "submits (Transfer c token to amount) = True"
| "submits e = False"

fun writes :: "event \<Rightarrow> bool" where
  "writes (KV_put key v) = True"
| "writes e = False"

text \<open>
  The KV namespace maps a key to the JSON value stored under it.  \<^verbatim>\<open>get\<close> with
  \<^verbatim>\<open>type: 'json'\<close> yields \<^verbatim>\<open>null\<close> for a key that is not there.  The store is taken to
  answer every call.
\<close>

type_synonym store = "string \<rightharpoonup> jsval"

definition DB_get :: "store \<Rightarrow> string \<Rightarrow> jsval" where
  "DB_get db key = (case db key of None \<Rightarrow> JNull | Some v \<Rightarrow> v)"

definition DB_key :: "world \<Rightarrow> jsval \<Rightarrow> string" where
  "DB_key W order = (case order of JStr s \<Rightarrow> s | _ \<Rightarrow> kv_key W order)"

subsection \<open>Conversions of the language\<close>

text \<open>\<^verbatim>\<open>v.toString()\<close>: a property access on \<^verbatim>\<open>null\<close> or \<^verbatim>\<open>undefined\<close> throws.\<close>

fun toString_js :: "world \<Rightarrow> jsval \<Rightarrow> exn + string" where
  "toString_js W JUndefined = Inl TypeError"
| "toString_js W JNull = Inl TypeError"
| "toString_js W (JBool b) = Inr (if b then ''true'' else ''false'')"
| "toString_js W (JNum x) = Inr (Number_toString W x)"
| "toString_js W (JStr s) = Inr s"
| "toString_js W v = Inr (Object_toString W v)"

text \<open>\<^verbatim>\<open>Number(v)\<close>: an array or object is converted through its string.\<close>

fun Number_js :: "world \<Rightarrow> jsval \<Rightarrow> jsnum" where
  "Number_js W JUndefined = NaN"
| "Number_js W JNull = num 0"
| "Number_js W (JBool b) = (if b then num 1 else num 0)"
| "Number_js W (JNum x) = x"
| "Number_js W (JStr s) = StringToNumber W s"
| "Number_js W v = StringToNumber W (Object_toString W v)"


section \<open>The handler\<close>

text \<open>\<open>Direct\<close> is the handler of \<^verbatim>\<open>src/index.ts\<close>, \<open>Oracle\<close> the one that also reads the
  Chainlink feed.  They differ in the contract reads and in one line of the conversion.\<close>

datatype variant = Direct | Oracle

subsection \<open>Price Resolver\<close>

text \<open>The contract reads are issued together (\<^verbatim>\<open>Promise.all\<close>): all of them are sent, and
  the first rejection, taken here in the order of the array, is what the \<^verbatim>\<open>await\<close> throws.
  The oracle's \<^verbatim>\<open>answer\<close> is an \<^verbatim>\<open>int256\<close>; \<open>None\<close> is the direct mode, which has no rate.\<close>

definition price_reads :: "variant \<Rightarrow> chain \<Rightarrow> Env \<Rightarrow> event list" where
  "price_reads v targetChain env =
     [Read targetChain (PAIR_ADDRESS env) ''getReserves'',
      Read targetChain (PAIR_ADDRESS env) ''token0'']
     @ (case v of
          Direct \<Rightarrow> []
        | Oracle \<Rightarrow> [Read Mainnet (CHAINLINK_ORACLE_ADDRESS env) ''latestRoundData''])"

definition readPrices ::
  "variant \<Rightarrow> world \<Rightarrow> chain \<Rightarrow> Env \<Rightarrow> exn + (112 word \<times> 112 word \<times> string \<times> int option)" where
  "readPrices v W targetChain env =
     (case read_getReserves W targetChain (PAIR_ADDRESS env) of
        Inl e \<Rightarrow> Inl e
      | Inr (reserve0, reserve1, blockTimestampLast) \<Rightarrow>
     (case read_token0 W targetChain (PAIR_ADDRESS env) of
        Inl e \<Rightarrow> Inl e
      | Inr token0 \<Rightarrow>
     (case v of
        Direct \<Rightarrow> Inr (reserve0, reserve1, token0, None)
      | Oracle \<Rightarrow>
         (case read_latestRoundData W Mainnet (CHAINLINK_ORACLE_ADDRESS env) of
            Inl e \<Rightarrow> Inl e
          | Inr (roundId, answer, startedAt, updatedAt, answeredInRound) \<Rightarrow>
              Inr (reserve0, reserve1, token0, Some (sint answer))))))"

text \<open>Which reserve is ALX and which is USDT: the pair \<open>(alxReserve, usdtReserve)\<close>.\<close>

definition resolveReserves :: "string \<Rightarrow> string \<Rightarrow> 112 word \<Rightarrow> 112 word \<Rightarrow> int \<times> int" where
  "resolveReserves token0 alx reserve0 reserve1 =
     (if toLowerCase token0 = toLowerCase alx
      then (uint reserve0, uint reserve1)
      else (uint reserve1, uint reserve0))"

subsection \<open>Conversion Engine\<close>

text \<open>The amount before the offset.  Direct mode:
  \<^verbatim>\<open>(rwaAmountBigInt * alxReserve) / usdtReserve\<close>.  Oracle mode:
  \<^verbatim>\<open>usdtAmount = (rwaAmountBigInt * cnyToUsdRate) / 100000000n\<close>, then
  \<^verbatim>\<open>(usdtAmount * alxReserve) / usdtReserve\<close>.\<close>

definition toAlx :: "int option \<Rightarrow> int \<Rightarrow> int \<Rightarrow> int \<Rightarrow> exn + int" where
  "toAlx rate rwaAmountBigInt alxReserve usdtReserve =
     (case rate of
        None \<Rightarrow> bigint_div (rwaAmountBigInt * alxReserve) usdtReserve
      | Some cnyToUsdRate \<Rightarrow>
         (case bigint_div (rwaAmountBigInt * cnyToUsdRate) 100000000 of
            Inl e \<Rightarrow> Inl e
          | Inr usdtAmount \<Rightarrow> bigint_div (usdtAmount * alxReserve) usdtReserve))"

text \<open>\<^verbatim>\<open>BigInt(Math.floor((1 + offsetPercent / 100) * 10000))\<close>\<close>

definition multiplier :: "jsnum \<Rightarrow> exn + int" where
  "multiplier offsetPercent =
     BigInt (Math_floor (js_mul_const (js_add_const 1 (js_div_const offsetPercent 100)) 10000))"

text \<open>\<^verbatim>\<open>sendAmount = (sendAmount * multiplier) / 10000n\<close>\<close>

definition applyOffset :: "jsnum \<Rightarrow> int \<Rightarrow> exn + int" where
  "applyOffset offsetPercent sendAmount =
     (case multiplier offsetPercent of
        Inl e \<Rightarrow> Inl e
      | Inr m \<Rightarrow> bigint_div (sendAmount * m) 10000)"

text \<open>From \<^verbatim>\<open>parseEther(rwa_amount.toString())\<close> to the amount that is sent.\<close>

definition convert ::
  "world \<Rightarrow> int option \<Rightarrow> int \<Rightarrow> int \<Rightarrow> jsval \<Rightarrow> jsval \<Rightarrow> exn + int" where
  "convert W rate alxReserve usdtReserve rwa_amount offset =
     (case toString_js W rwa_amount of
        Inl e \<Rightarrow> Inl e
      | Inr decimal \<Rightarrow>
     (case parseEther W decimal of
        Inl e \<Rightarrow> Inl e
      | Inr rwaAmountBigInt \<Rightarrow>
     (case toAlx rate rwaAmountBigInt alxReserve usdtReserve of
        Inl e \<Rightarrow> Inl e
      | Inr sendAmount \<Rightarrow> applyOffset (Number_js W offset) sendAmount)))"

subsection \<open>Settlement\<close>

definition resultData :: "world \<Rightarrow> string \<Rightarrow> int \<Rightarrow> jsval \<Rightarrow> jsval" where
  "resultData W txHash sendAmount rwa_amount =
     JObj [(''status'', JStr ''success''),
           (''tx_hash'', JStr txHash),
           (''alx_sent'', JStr (formatUnits W sendAmount 18)),
           (''rwa_value'', rwa_amount),
           (''timestamp'', JNum (Date_now W))]"

text \<open>
  The \<^verbatim>\<open>try\<close> block from the client set-up to the transfer, for an order that is not in
  the store: the exception or the record to store, with the events issued on the way.
\<close>

text \<open>\<^verbatim>\<open>env.CHAIN_ID === '97' ? bscTestnet : bsc\<close>\<close>

definition targetChain :: "Env \<Rightarrow> chain" where
  "targetChain env = (if CHAIN_ID env = ''97'' then BscTestnet else Bsc)"

definition settle ::
  "variant \<Rightarrow> world \<Rightarrow> Env \<Rightarrow> jsval \<Rightarrow> jsval \<Rightarrow> jsval \<Rightarrow> (exn + jsval) \<times> event list" where
  "settle v W env address rwa_amount offset =
     (case privateKeyToAccount W (PRIVATE_KEY env) of
        Inl e \<Rightarrow> (Inl e, [])
      | Inr account \<Rightarrow>
     (let reads = price_reads v (targetChain env) env in
      case readPrices v W (targetChain env) env of
        Inl e \<Rightarrow> (Inl e, reads)
      | Inr (reserve0, reserve1, token0, rate) \<Rightarrow>
     (let (alxReserve, usdtReserve) =
            resolveReserves token0 (ALX_CONTRACT_ADDRESS env) reserve0 reserve1 in
      if alxReserve = 0 then (Inl (Error ''Liquidity pool is empty''), reads)
      else
     (case convert W rate alxReserve usdtReserve rwa_amount offset of
        Inl e \<Rightarrow> (Inl e, reads)
      | Inr sendAmount \<Rightarrow>
     (let submission = Transfer (targetChain env) (ALX_CONTRACT_ADDRESS env) address sendAmount in
      case write_transfer W (targetChain env) account (ALX_CONTRACT_ADDRESS env) address sendAmount of
        Inl e \<Rightarrow> (Inl e, reads @ [submission])
      | Inr txHash \<Rightarrow>
          (Inr (resultData W txHash sendAmount rwa_amount), reads @ [submission]))))))"

subsection \<open>The routes\<close>

text \<open>\<^verbatim>\<open>!address || !rwa_amount || !order || offset === undefined\<close>\<close>

definition missing_parameters :: "jsval \<Rightarrow> jsval \<Rightarrow> jsval \<Rightarrow> jsval \<Rightarrow> bool" where
  "missing_parameters address rwa_amount offset order =
     (\<not> truthy address \<or> \<not> truthy rwa_amount \<or> \<not> truthy order \<or> offset = JUndefined)"

text \<open>\<^verbatim>\<open>const { address, rwa_amount, offset, order } = body\<close>\<close>

definition destructure :: "jsval \<Rightarrow> exn + (jsval \<times> jsval \<times> jsval \<times> jsval)" where
  "destructure body =
     (case property body ''address'' of Inl e \<Rightarrow> Inl e | Inr address \<Rightarrow>
     (case property body ''rwa_amount'' of Inl e \<Rightarrow> Inl e | Inr rwa_amount \<Rightarrow>
     (case property body ''offset'' of Inl e \<Rightarrow> Inl e | Inr offset \<Rightarrow>
     (case property body ''order'' of Inl e \<Rightarrow> Inl e | Inr order \<Rightarrow>
        Inr (address, rwa_amount, offset, order)))))"

text \<open>\<^verbatim>\<open>POST /pay\<close>: the response, the events, and the store afterwards.\<close>

definition pay ::
  "variant \<Rightarrow> world \<Rightarrow> Env \<Rightarrow> store \<Rightarrow> request \<Rightarrow> response \<times> event list \<times> store" where
  "pay v W env db req =
     (case json req of
        Inl e \<Rightarrow> (jsonResp (Report e) 500, [], db)
      | Inr body \<Rightarrow>
     (case destructure body of
        Inl e \<Rightarrow> (jsonResp (Report e) 500, [], db)
      | Inr (address, rwa_amount, offset, order) \<Rightarrow>
          if missing_parameters address rwa_amount offset order
          then (jsonResp (Json (JObj [(''error'', JStr ''Missing parameters'')])) 400, [], db)
          else
            let key = DB_key W order; existing = DB_get db key in
            if truthy existing
            then (jsonResp (Json (JObj [(''msg'', JStr ''Duplicate request''),
                                        (''data'', existing)])) 200,
                  [KV_get key], db)
            else
              (case settle v W env address rwa_amount offset of
                 (Inl e, events) \<Rightarrow> (jsonResp (Report e) 500, KV_get key # events, db)
               | (Inr record, events) \<Rightarrow>
                   (jsonResp (Json (JObj [(''code'', JNum (num 200)), (''data'', record)])) 200,
                    KV_get key # events @ [KV_put key record],
                    db(key \<mapsto> record)))))"

text \<open>\<^verbatim>\<open>GET /status?order=xxx\<close>\<close>

definition status_route :: "store \<Rightarrow> request \<Rightarrow> response \<times> event list \<times> store" where
  "status_route db req =
     (case order_param req of
        None \<Rightarrow> (jsonResp (Json (JObj [(''error'', JStr ''Missing order'')])) 400, [], db)
      | Some order \<Rightarrow>
          if order = [] then (jsonResp (Json (JObj [(''error'', JStr ''Missing order'')])) 400, [], db)
          else
            let record = DB_get db order in
            if truthy record then (jsonResp (Json record) 200, [KV_get order], db)
            else (jsonResp (Json (JObj [(''status'', JStr ''not_found'')])) 404, [KV_get order], db))"

text \<open>\<^verbatim>\<open>!apiKey || apiKey !== env.API_KEY\<close>\<close>

definition unauthorized :: "Env \<Rightarrow> request \<Rightarrow> bool" where
  "unauthorized env req =
     (case X_API_KEY req of
        None \<Rightarrow> True
      | Some apiKey \<Rightarrow> apiKey = [] \<or> apiKey \<noteq> API_KEY env)"

definition fetch ::
  "variant \<Rightarrow> world \<Rightarrow> Env \<Rightarrow> store \<Rightarrow> request \<Rightarrow> response \<times> event list \<times> store" where
  "fetch v W env db req =
     (if unauthorized env req
      then (jsonResp (Json (JObj [(''error'', JStr ''Unauthorized: Invalid API Key'')])) 401, [], db)
      else if http_method req = ''GET'' \<and> pathname req = ''/status'' then status_route db req
      else if http_method req = ''POST'' \<and> pathname req = ''/pay'' then pay v W env db req
      else (jsonResp (Json (JObj [(''error'', JStr ''Not found'')])) 404, [], db))"

section \<open>The specification's reading of the conversions\<close>

text \<open>Two strings are equal under case-insensitive comparison when they have the same
  length and, position by position, the same character or the two cases of one letter.\<close>

definition is_upper :: "char \<Rightarrow> bool" where
  "is_upper c = (65 \<le> (of_char c :: nat) \<and> (of_char c :: nat) \<le> 90)"

definition is_lower :: "char \<Rightarrow> bool" where
  "is_lower c = (97 \<le> (of_char c :: nat) \<and> (of_char c :: nat) \<le> 122)"

definition same_letter :: "char \<Rightarrow> char \<Rightarrow> bool" where
  "same_letter c d =
     (c = d
      \<or> (is_upper c \<and> is_lower d \<and> (of_char d :: nat) = of_char c + 32)
      \<or> (is_lower c \<and> is_upper d \<and> (of_char c :: nat) = of_char d + 32))"

fun eq_ignore_case :: "string \<Rightarrow> string \<Rightarrow> bool" where
  "eq_ignore_case [] [] = True"
| "eq_ignore_case (c # cs) (d # ds) = (same_letter c d \<and> eq_ignore_case cs ds)"
| "eq_ignore_case cs ds = False"

text \<open>The specification's formulas: every division is a \<open>floor\<close>.\<close>

definition spec_direct :: "int \<Rightarrow> int \<Rightarrow> int \<Rightarrow> int" where
  "spec_direct scaled settlement_reserve reference_reserve =
     (scaled * settlement_reserve) div reference_reserve"

definition spec_oracle :: "int \<Rightarrow> int \<Rightarrow> int \<Rightarrow> int \<Rightarrow> int" where
  "spec_oracle scaled external_rate settlement_reserve reference_reserve =
     (((scaled * external_rate) div 10 ^ 8) * settlement_reserve) div reference_reserve"


section \<open>Sample deployment\<close>

text \<open>A configuration, a world and requests on which the theorems below are exercised:
  a pool whose \<^verbatim>\<open>token0\<close> is ALX (reported in checksum casing) holding
  \<open>2,000,000 * 10 ^ 18\<close> ALX against \<open>1,000,000 * 10 ^ 18\<close> USDT, an oracle answering
  \<open>14000000\<close>, and a signer whose transfers the network accepts unless the amount is
  negative.\<close>

definition sample_env :: Env where
  "sample_env =
     \<lparr> API_KEY = ''secret'',
       PRIVATE_KEY = ''0xprivate'',
       CHAIN_ID = ''56'',
       BSC_RPC = ''https://bsc.example'',
       ETH_RPC = ''https://eth.example'',
       ALX_CONTRACT_ADDRESS = ''0x1234567890abcdef1234567890abcdef12345678'',
       USDT_CONTRACT_ADDRESS = ''0x55d398326f99059ff775485246999027b3197955'',
       PAIR_ADDRESS = ''0x00000000000000000000000000000000000000aa'',
       CHAINLINK_ORACLE_ADDRESS = ''0x00000000000000000000000000000000000000bb'' \<rparr>"

definition sample_world :: world where
  "sample_world =
     \<lparr> Number_toString =
         (\<lambda>x. case map_of [(num 100, ''100''), (num 700, ''700''), (num 1, ''1''),
                             (num (- 1), ''-1''), (num (- 7), ''-7'')] x of
                 Some s \<Rightarrow> s | None \<Rightarrow> ''NaN''),
       Object_toString = (\<lambda>v. ''[object Object]''),
       StringToNumber = (\<lambda>s. NaN),
       kv_key = (\<lambda>v. ''[object Object]''),
       parseEther =
         (\<lambda>s. case map_of [(''100'', 100 * 10 ^ 18), (''700'', 700 * 10 ^ 18), (''1'', 10 ^ 18),
                             (''-1'', - (10 ^ 18)), (''-7'', - (7 * 10 ^ 18))] s of
                 Some n \<Rightarrow> Inr n | None \<Rightarrow> Inl (Error ''InvalidDecimalNumberError'')),
       formatUnits = (\<lambda>n decimals. ''(amount)''),
       privateKeyToAccount = (\<lambda>k. Inr ''0x00000000000000000000000000000000000000cc''),
       read_getReserves = (\<lambda>c a. Inr (2000000 * 10 ^ 18, 1000000 * 10 ^ 18, 0)),
       read_token0 = (\<lambda>c a. Inr ''0x1234567890AbCdEf1234567890aBcDeF12345678''),
       read_latestRoundData = (\<lambda>c a. Inr (1, 14000000, 0, 0, 1)),
       write_transfer =
         (\<lambda>c account token to amount.
            if amount < 0 then Inl (Error ''IntegerOutOfRangeError'') else Inr ''0xhash''),
       Date_now = num 1700000000000 \<rparr>"

text \<open>The same world with other reserves in the pool, and with a network that rejects
  every transfer.\<close>

definition with_reserves :: "112 word \<Rightarrow> 112 word \<Rightarrow> world \<Rightarrow> world" where
  "with_reserves reserve0 reserve1 W = W\<lparr>read_getReserves := (\<lambda>c a. Inr (reserve0, reserve1, 0))\<rparr>"

definition rejecting_transfers :: "world \<Rightarrow> world" where
  "rejecting_transfers W =
     W\<lparr>write_transfer := (\<lambda>c account token to amount. Inl (Error ''insufficient funds''))\<rparr>"

text \<open>An authenticated \<^verbatim>\<open>POST /pay\<close> with the given body, and a body with the four fields.\<close>

definition pay_request :: "jsval \<Rightarrow> request" where
  "pay_request b =
     \<lparr> X_API_KEY = Some ''secret'', http_method = ''POST'', pathname = ''/pay'',
       order_param = None, json = Inr b \<rparr>"

definition recipient :: jsval where
  "recipient = JStr ''0x00000000000000000000000000000000000000d1''"

definition order_body :: "jsval \<Rightarrow> jsval \<Rightarrow> jsval \<Rightarrow> jsval" where
  "order_body rwa_amount offset order =
     JObj [(''address'', recipient), (''rwa_amount'', rwa_amount),
           (''offset'', offset), (''order'', order)]"

text \<open>A settlement outcome as the handler stores it, and a store that holds it.\<close>

definition sample_outcome :: jsval where
  "sample_outcome = resultData sample_world ''0xhash'' (200 * 10 ^ 18) (JNum (num 100))"

definition sample_store :: store where
  "sample_store = [''order-1'' \<mapsto> sample_outcome]"


section \<open>Facts about the handler\<close>

lemma fetch_pay:
  "\<not> unauthorized env req \<Longrightarrow> http_method req = ''POST'' \<Longrightarrow> pathname req = ''/pay''
   \<Longrightarrow> fetch v W env db req = pay v W env db req"
  by (simp add: fetch_def)

lemma settle_events_no_write: "\<not> list_ex writes (snd (settle v W env a r f))"
  by (auto simp: settle_def price_reads_def Let_def split: sum.splits prod.splits variant.splits)

lemma pay_entered:
  assumes "json req = Inr body"
    and "destructure body = Inr (address, rwa_amount, offset, order)"
    and "\<not> missing_parameters address rwa_amount offset order"
    and "\<not> truthy (DB_get db (DB_key W order))"
  shows "pay v W env db req =
     (case settle v W env address rwa_amount offset of
        (Inl e, events) \<Rightarrow> (jsonResp (Report e) 500, KV_get (DB_key W order) # events, db)
      | (Inr record, events) \<Rightarrow>
          (jsonResp (Json (JObj [(''code'', JNum (num 200)), (''data'', record)])) 200,
           KV_get (DB_key W order) # events @ [KV_put (DB_key W order) record],
           db(DB_key W order \<mapsto> record)))"
  using assms by (simp add: pay_def Let_def)

lemma price_reads_quiet:
  "\<not> list_ex submits (price_reads v c env)" "\<not> list_ex writes (price_reads v c env)"
  by (simp_all add: price_reads_def split: variant.splits)

lemma settle_empty_pool:
  assumes "privateKeyToAccount W (PRIVATE_KEY env) = Inr account"
    and "readPrices v W (targetChain env) env = Inr (reserve0, reserve1, token0, rate)"
    and "fst (resolveReserves token0 (ALX_CONTRACT_ADDRESS env) reserve0 reserve1) = 0"
  shows "settle v W env address rwa_amount offset =
     (Inl (Error ''Liquidity pool is empty''), price_reads v (targetChain env) env)"
  using assms by (auto simp: settle_def Let_def split: prod.splits)

lemma settle_read_fails:
  assumes "privateKeyToAccount W (PRIVATE_KEY env) = Inr account"
    and "readPrices v W (targetChain env) env = Inl e"
  shows "settle v W env address rwa_amount offset = (Inl e, price_reads v (targetChain env) env)"
  using assms by (simp add: settle_def Let_def)

lemma settle_convert_fails:
  assumes "privateKeyToAccount W (PRIVATE_KEY env) = Inr account"
    and "readPrices v W (targetChain env) env = Inr (reserve0, reserve1, token0, rate)"
    and "resolveReserves token0 (ALX_CONTRACT_ADDRESS env) reserve0 reserve1 = (alxReserve, usdtReserve)"
    and "alxReserve \<noteq> 0"
    and "convert W rate alxReserve usdtReserve rwa_amount offset = Inl e"
  shows "settle v W env address rwa_amount offset = (Inl e, price_reads v (targetChain env) env)"
  using assms by (simp add: settle_def Let_def)

lemma settle_submits:
  assumes "privateKeyToAccount W (PRIVATE_KEY env) = Inr account"
    and "readPrices v W (targetChain env) env = Inr (reserve0, reserve1, token0, rate)"
    and "resolveReserves token0 (ALX_CONTRACT_ADDRESS env) reserve0 reserve1 = (alxReserve, usdtReserve)"
    and "alxReserve \<noteq> 0"
    and "convert W rate alxReserve usdtReserve rwa_amount offset = Inr sendAmount"
  shows "settle v W env address rwa_amount offset =
     (case write_transfer W (targetChain env) account (ALX_CONTRACT_ADDRESS env) address sendAmount of
        Inl e \<Rightarrow> Inl e
      | Inr txHash \<Rightarrow> Inr (resultData W txHash sendAmount rwa_amount),
      price_reads v (targetChain env) env
      @ [Transfer (targetChain env) (ALX_CONTRACT_ADDRESS env) address sendAmount])"
  using assms by (simp add: settle_def Let_def split: sum.splits)

lemma pay_failure_keeps_store:
  assumes "pay v W env db req = (Response 500 b, events, db')"
  shows "db' = db \<and> \<not> list_ex writes events"
proof (cases "json req")
  case (Inl e)
  with assms show ?thesis by (simp add: pay_def)
next
  case (Inr body)
  show ?thesis
  proof (cases "destructure body")
    case (Inl e)
    with Inr assms show ?thesis by (simp add: pay_def)
  next
    case fields: (Inr t)
    obtain address rwa_amount offset order where t: "t = (address, rwa_amount, offset, order)"
      by (cases t) auto
    show ?thesis
    proof (cases "missing_parameters address rwa_amount offset order")
      case True
      with Inr fields t assms show ?thesis by (simp add: pay_def jsonResp_def)
    next
      case present: False
      show ?thesis
      proof (cases "truthy (DB_get db (DB_key W order))")
        case True
        with Inr fields t present assms show ?thesis by (simp add: pay_def jsonResp_def Let_def)
      next
        case False
        obtain r evs where s: "settle v W env address rwa_amount offset = (r, evs)"
          by (cases "settle v W env address rwa_amount offset") auto
        have quiet: "\<not> list_ex writes evs"
          using settle_events_no_write [of v W env address rwa_amount offset] s by simp
        from Inr fields [unfolded t] present False
        have "pay v W env db req =
           (case settle v W env address rwa_amount offset of
              (Inl e, events) \<Rightarrow> (jsonResp (Report e) 500, KV_get (DB_key W order) # events, db)
            | (Inr record, events) \<Rightarrow>
                (jsonResp (Json (JObj [(''code'', JNum (num 200)), (''data'', record)])) 200,
                 KV_get (DB_key W order) # events @ [KV_put (DB_key W order) record],
                 db(DB_key W order \<mapsto> record)))"
          by (rule pay_entered)
        with s have "pay v W env db req =
           (case r of
              Inl e \<Rightarrow> (jsonResp (Report e) 500, KV_get (DB_key W order) # evs, db)
            | Inr record \<Rightarrow>
                (jsonResp (Json (JObj [(''code'', JNum (num 200)), (''data'', record)])) 200,
                 KV_get (DB_key W order) # evs @ [KV_put (DB_key W order) record],
                 db(DB_key W order \<mapsto> record)))"
          by simp
        with assms quiet show ?thesis
          by (cases r) (auto simp: jsonResp_def)
      qed
    qed
  qed
qed

lemma fetch_pay_submits:
  assumes "\<not> unauthorized env req" and "http_method req = ''POST''" and "pathname req = ''/pay''"
    and "json req = Inr body"
    and "destructure body = Inr (address, rwa_amount, offset, order)"
    and "\<not> missing_parameters address rwa_amount offset order"
    and "\<not> truthy (DB_get db (DB_key W order))"
    and "privateKeyToAccount W (PRIVATE_KEY env) = Inr account"
    and "readPrices v W (targetChain env) env = Inr (reserve0, reserve1, token0, rate)"
    and "resolveReserves token0 (ALX_CONTRACT_ADDRESS env) reserve0 reserve1 = (alxReserve, usdtReserve)"
    and "alxReserve \<noteq> 0"
    and "convert W rate alxReserve usdtReserve rwa_amount offset = Inr sendAmount"
  shows "fetch v W env db req =
     (case write_transfer W (targetChain env) account (ALX_CONTRACT_ADDRESS env) address sendAmount of
        Inl e \<Rightarrow>
          (jsonResp (Report e) 500,
           KV_get (DB_key W order) # price_reads v (targetChain env) env
           @ [Transfer (targetChain env) (ALX_CONTRACT_ADDRESS env) address sendAmount],
           db)
      | Inr txHash \<Rightarrow>
          (jsonResp (Json (JObj [(''code'', JNum (num 200)),
                                 (''data'', resultData W txHash sendAmount rwa_amount)])) 200,
           KV_get (DB_key W order) # price_reads v (targetChain env) env
           @ [Transfer (targetChain env) (ALX_CONTRACT_ADDRESS env) address sendAmount,
              KV_put (DB_key W order) (resultData W txHash sendAmount rwa_amount)],
           db(DB_key W order \<mapsto> resultData W txHash sendAmount rwa_amount)))"
  using assms by (simp add: fetch_pay pay_entered settle_submits split: sum.splits)

lemma fetch_pay_submitted:
  assumes "\<not> unauthorized env req" and "http_method req = ''POST''" and "pathname req = ''/pay''"
    and "json req = Inr body"
    and "destructure body = Inr (address, rwa_amount, offset, order)"
    and "\<not> missing_parameters address rwa_amount offset order"
    and "\<not> truthy (DB_get db (DB_key W order))"
    and "privateKeyToAccount W (PRIVATE_KEY env) = Inr account"
    and "readPrices v W (targetChain env) env = Inr (reserve0, reserve1, token0, rate)"
    and "resolveReserves token0 (ALX_CONTRACT_ADDRESS env) reserve0 reserve1 = (alxReserve, usdtReserve)"
    and "alxReserve \<noteq> 0"
    and "convert W rate alxReserve usdtReserve rwa_amount offset = Inr sendAmount"
  shows "Transfer (targetChain env) (ALX_CONTRACT_ADDRESS env) address sendAmount
           \<in> set (fst (snd (fetch v W env db req)))"
    and "status_of (fst (fetch v W env db req)) \<noteq> 400"
  using fetch_pay_submits [OF assms]
  by (auto simp: jsonResp_def split: sum.splits)

lemma readPrices_Direct:
  "readPrices Direct W c env = Inr (reserve0, reserve1, token0, rate) \<Longrightarrow> rate = None"
  by (auto simp: readPrices_def split: sum.splits prod.splits)

lemma readPrices_Oracle:
  "readPrices Oracle W c env = Inr (reserve0, reserve1, token0, rate)
   \<Longrightarrow> \<exists>roundId answer startedAt updatedAt answeredInRound.
         read_latestRoundData W Mainnet (CHAINLINK_ORACLE_ADDRESS env)
           = Inr (roundId, answer, startedAt, updatedAt, answeredInRound)
         \<and> rate = Some (sint answer)"
  by (auto simp: readPrices_def split: sum.splits prod.splits)

lemma resolveReserves_nonneg:
  "resolveReserves token0 alx reserve0 reserve1 = (alxReserve, usdtReserve)
   \<Longrightarrow> 0 \<le> alxReserve \<and> 0 \<le> usdtReserve"
  by (auto simp: resolveReserves_def split: if_splits)

lemma convert_parsed:
  assumes "toString_js W rwa_amount = Inr decimal" and "parseEther W decimal = Inr scaled"
  shows "convert W rate alxReserve usdtReserve rwa_amount offset =
     (case toAlx rate scaled alxReserve usdtReserve of
        Inl e \<Rightarrow> Inl e
      | Inr sendAmount \<Rightarrow> applyOffset (Number_js W offset) sendAmount)"
  using assms by (simp add: convert_def)

lemma applyOffset_multiplier:
  "multiplier x = Inr m \<Longrightarrow> applyOffset x sendAmount = Inr (quot (sendAmount * m) 10000)"
  by (simp add: applyOffset_def bigint_div_def)

lemma quot_nonneg: "0 \<le> a \<Longrightarrow> 0 < b \<Longrightarrow> quot a b = a div b"
  by (simp add: quot_def)

lemma quot_cancel:
  assumes "0 < b"
  shows "quot (a * b) b = a"
proof -
  have size: "\<bar>a * b\<bar> div b = \<bar>a\<bar>"
    using assms by (simp add: abs_mult)
  have sign: "(a * b < 0) = (a < 0)"
    using assms by (simp add: mult_less_0_iff)
  show ?thesis
    using assms by (simp add: quot_def size sign)
qed

lemma of_char_lower_char:
  "(of_char (lower_char c) :: nat) = (if is_upper c then of_char c + 32 else of_char c)"
  by (simp add: lower_char_def is_upper_def of_char_of)

lemma lower_char_eq_iff: "lower_char c = lower_char d \<longleftrightarrow> same_letter c d"
proof -
  have "lower_char c = lower_char d \<longleftrightarrow> (of_char (lower_char c) :: nat) = of_char (lower_char d)"
    by (simp only: of_char_eq_iff)
  also have "\<dots> \<longleftrightarrow> same_letter c d"
    unfolding of_char_lower_char same_letter_def is_upper_def is_lower_def
    using of_char_eq_iff [of c d, where ?'a = nat] by auto
  finally show ?thesis .
qed

lemma toLowerCase_eq_iff: "toLowerCase s = toLowerCase t \<longleftrightarrow> eq_ignore_case s t"
  by (induction s t rule: eq_ignore_case.induct) (simp_all add: toLowerCase_def lower_char_eq_iff)

section \<open>Facts about the sample deployment\<close>

lemma sample_token0_lower:
  "toLowerCase ''0x1234567890AbCdEf1234567890aBcDeF12345678'' = ''0x1234567890abcdef1234567890abcdef12345678''"
  "toLowerCase ''0x1234567890abcdef1234567890abcdef12345678'' = ''0x1234567890abcdef1234567890abcdef12345678''"
  "toLowerCase ''0X1234567890ABCDEF1234567890ABCDEF12345678'' = ''0x1234567890abcdef1234567890abcdef12345678''"
  "toLowerCase ''0x55d398326f99059ff775485246999027b3197955'' = ''0x55d398326f99059ff775485246999027b3197955''"
  by code_simp+

lemma float_samples:
  "multiplier (num 0) = Inr 10000"
  "multiplier (num 10) = Inr 11000"
  "multiplier (num (- 150)) = Inr (- 5000)"
  "multiplier (num (- 200)) = Inr (- 10000)"
  by (simp_all add: num_def multiplier_def fl_def exponent_of_def shift_def round_half_even_def
      bit_length.simps Let_def cong: let_weak_cong)

lemma sample_request:
  "\<not> unauthorized sample_env (pay_request b)"
  "http_method (pay_request b) = ''POST''"
  "pathname (pay_request b) = ''/pay''"
  "json (pay_request b) = Inr b"
  by (simp_all add: unauthorized_def pay_request_def sample_env_def)

lemma sample_fields: "destructure (order_body r f k) = Inr (recipient, r, f, k)"
  by (simp add: destructure_def order_body_def)

lemma sample_present_fields:
  "truthy r \<Longrightarrow> f \<noteq> JUndefined \<Longrightarrow> \<not> missing_parameters recipient r f (JStr ''order-1'')"
  by (simp add: missing_parameters_def recipient_def)

lemma sample_truthy:
  "truthy (JNum (num 1))" "truthy (JNum (num (- 1)))" "truthy (JNum (num (- 7)))"
  "truthy (JNum (num 100))" "truthy (JNum (num 700))"
  by (simp_all add: num_def)

lemma sample_present:
  "\<not> missing_parameters recipient (JNum (num 100)) (JNum (num 0)) (JStr ''order-1'')"
  by (simp add: missing_parameters_def recipient_def num_def)

lemma sample_fresh: "\<not> truthy (DB_get Map.empty (DB_key W (JStr ''order-1'')))"
  by (simp add: DB_get_def)

lemma sample_account:
  "privateKeyToAccount sample_world (PRIVATE_KEY sample_env)
     = Inr ''0x00000000000000000000000000000000000000cc''"
  "privateKeyToAccount (with_reserves a b sample_world) (PRIVATE_KEY sample_env)
     = Inr ''0x00000000000000000000000000000000000000cc''"
  "privateKeyToAccount (rejecting_transfers sample_world) (PRIVATE_KEY sample_env)
     = Inr ''0x00000000000000000000000000000000000000cc''"
  by (simp_all add: sample_world_def with_reserves_def rejecting_transfers_def)

lemma sample_chain: "targetChain sample_env = Bsc"
  by (simp add: targetChain_def sample_env_def)

lemma sample_reads:
  "readPrices Direct (with_reserves a b sample_world) Bsc sample_env
     = Inr (a, b, ''0x1234567890AbCdEf1234567890aBcDeF12345678'', None)"
  "readPrices Oracle (with_reserves a b sample_world) Bsc sample_env
     = Inr (a, b, ''0x1234567890AbCdEf1234567890aBcDeF12345678'', Some 14000000)"
  "readPrices Direct sample_world Bsc sample_env
     = Inr (2000000 * 10 ^ 18, 1000000 * 10 ^ 18,
            ''0x1234567890AbCdEf1234567890aBcDeF12345678'', None)"
  "readPrices Oracle sample_world Bsc sample_env
     = Inr (2000000 * 10 ^ 18, 1000000 * 10 ^ 18,
            ''0x1234567890AbCdEf1234567890aBcDeF12345678'', Some 14000000)"
  "readPrices Direct (rejecting_transfers sample_world) Bsc sample_env
     = Inr (2000000 * 10 ^ 18, 1000000 * 10 ^ 18,
            ''0x1234567890AbCdEf1234567890aBcDeF12345678'', None)"
  by (simp_all add: readPrices_def sample_world_def with_reserves_def rejecting_transfers_def)

lemma sample_resolve:
  "resolveReserves ''0x1234567890AbCdEf1234567890aBcDeF12345678''
     (ALX_CONTRACT_ADDRESS sample_env) a b = (uint a, uint b)"
  by (simp add: resolveReserves_def sample_env_def sample_token0_lower)

lemma sample_decimal:
  "toString_js sample_world (JNum (num 100)) = Inr ''100''"
  "toString_js sample_world (JNum (num 700)) = Inr ''700''"
  "toString_js (rejecting_transfers sample_world) (JNum (num 100)) = Inr ''100''"
  "toString_js (with_reserves a b sample_world) (JNum (num 1)) = Inr ''1''"
  "toString_js (with_reserves a b sample_world) (JNum (num (- 1))) = Inr ''-1''"
  "toString_js (with_reserves a b sample_world) (JNum (num (- 7))) = Inr ''-7''"
  by (simp_all add: sample_world_def with_reserves_def rejecting_transfers_def num_def)

lemma sample_scaled:
  "parseEther sample_world ''100'' = Inr (100 * 10 ^ 18)"
  "parseEther sample_world ''700'' = Inr (700 * 10 ^ 18)"
  "parseEther (rejecting_transfers sample_world) ''100'' = Inr (100 * 10 ^ 18)"
  "parseEther (with_reserves a b sample_world) ''1'' = Inr (10 ^ 18)"
  "parseEther (with_reserves a b sample_world) ''-1'' = Inr (- (10 ^ 18))"
  "parseEther (with_reserves a b sample_world) ''-7'' = Inr (- (7 * 10 ^ 18))"
  by (simp_all add: sample_world_def with_reserves_def rejecting_transfers_def)

lemma sample_transfer:
  "write_transfer sample_world c account token to amount =
     (if amount < 0 then Inl (Error ''IntegerOutOfRangeError'') else Inr ''0xhash'')"
  "write_transfer (with_reserves a b sample_world) c account token to amount =
     (if amount < 0 then Inl (Error ''IntegerOutOfRangeError'') else Inr ''0xhash'')"
  "write_transfer (rejecting_transfers sample_world) c account token to amount =
     Inl (Error ''insufficient funds'')"
  by (simp_all add: sample_world_def with_reserves_def rejecting_transfers_def)

section \<open>Idempotency\<close>

text \<open>
  Claim C1, as the code has it.  The field check comes before the store lookup, so an
  authenticated \<^verbatim>\<open>POST /pay\<close> whose order is already in the store (under a truthy value,
  as every record the handler writes is) is answered in one of two ways: a body that
  fails the field check gets 400 \<^verbatim>\<open>Missing parameters\<close> without the store being read; any
  other body gets the stored outcome under \<^verbatim>\<open>Duplicate request\<close> after one store read.
  Either way no transfer is submitted and nothing is written.
\<close>

theorem duplicate_order_short_circuit:
  assumes "\<not> unauthorized env req" and "http_method req = ''POST''" and "pathname req = ''/pay''"
    and "json req = Inr body"
    and "destructure body = Inr (address, rwa_amount, offset, order)"
    and "db (DB_key W order) = Some outcome" and "truthy outcome"
  shows "fetch v W env db req =
     (if missing_parameters address rwa_amount offset order
      then (jsonResp (Json (JObj [(''error'', JStr ''Missing parameters'')])) 400, [], db)
      else (jsonResp (Json (JObj [(''msg'', JStr ''Duplicate request''), (''data'', outcome)])) 200,
            [KV_get (DB_key W order)], db))"
  using assms by (simp add: fetch_pay pay_def DB_get_def Let_def)

theorem duplicate_order_short_circuit_witness:
  "sample_store (DB_key sample_world (JStr ''order-1'')) = Some sample_outcome
   \<and> truthy sample_outcome
   \<and> fetch Direct sample_world sample_env sample_store
       (pay_request (order_body (JNum (num 700)) (JNum (num 10)) (JStr ''order-1'')))
     = (jsonResp (Json (JObj [(''msg'', JStr ''Duplicate request''), (''data'', sample_outcome)])) 200,
        [KV_get ''order-1''], sample_store)"
proof -
  have stored: "sample_store (DB_key sample_world (JStr ''order-1'')) = Some sample_outcome"
    by (simp add: sample_store_def DB_key_def)
  have object: "truthy sample_outcome"
    by (simp add: sample_outcome_def resultData_def)
  have present: "\<not> missing_parameters recipient (JNum (num 700)) (JNum (num 10)) (JStr ''order-1'')"
    by (simp add: missing_parameters_def recipient_def num_def)
  show ?thesis
    using stored object present
      duplicate_order_short_circuit
        [where db = sample_store and W = sample_world and v = Direct,
         OF sample_request sample_fields stored object]
    by (simp add: DB_key_def)
qed

text \<open>
  The claim's \<^emph>\<open>regardless of the rest of the request body\<close> fails: with \<^verbatim>\<open>order-1\<close> in
  the store, the body \<^verbatim>\<open>{"order": "order-1"}\<close> is answered 400, not with the stored outcome.
\<close>

theorem duplicate_order_counterexample:
  "sample_store ''order-1'' = Some sample_outcome
   \<and> fetch Direct sample_world sample_env sample_store (pay_request (JObj [(''order'', JStr ''order-1'')]))
     = (jsonResp (Json (JObj [(''error'', JStr ''Missing parameters'')])) 400, [], sample_store)"
  by (simp add: fetch_def unauthorized_def pay_def destructure_def missing_parameters_def
      jsonResp_def pay_request_def sample_env_def sample_store_def)

section \<open>Empty pool\<close>

text \<open>
  Claim C2.  When the resolved ALX reserve is zero, whatever the other reserve, the
  request ends in the \<^verbatim>\<open>catch\<close> branch with \<^verbatim>\<open>Liquidity pool is empty\<close> and status 500;
  no transfer has been submitted, nothing has been written, and the store is as it was.
\<close>

theorem empty_pool_aborts:
  assumes "\<not> unauthorized env req" and "http_method req = ''POST''" and "pathname req = ''/pay''"
    and "json req = Inr body"
    and "destructure body = Inr (address, rwa_amount, offset, order)"
    and "\<not> missing_parameters address rwa_amount offset order"
    and "\<not> truthy (DB_get db (DB_key W order))"
    and "privateKeyToAccount W (PRIVATE_KEY env) = Inr account"
    and "readPrices v W (targetChain env) env = Inr (reserve0, reserve1, token0, rate)"
    and "fst (resolveReserves token0 (ALX_CONTRACT_ADDRESS env) reserve0 reserve1) = 0"
  shows "\<exists>events.
      fetch v W env db req =
        (jsonResp (Report (Error ''Liquidity pool is empty'')) 500, events, db)
      \<and> \<not> list_ex submits events \<and> \<not> list_ex writes events"
proof -
  have "fetch v W env db req =
      (jsonResp (Report (Error ''Liquidity pool is empty'')) 500,
       KV_get (DB_key W order) # price_reads v (targetChain env) env, db)"
    using assms by (simp add: fetch_pay pay_entered settle_empty_pool)
  then show ?thesis
    by (simp add: price_reads_quiet)
qed

theorem empty_pool_aborts_witness:
  "fst (resolveReserves ''0x1234567890AbCdEf1234567890aBcDeF12345678''
          (ALX_CONTRACT_ADDRESS sample_env) 0 5) = 0
   \<and> (\<exists>events.
        fetch Direct (with_reserves 0 5 sample_world) sample_env Map.empty
          (pay_request (order_body (JNum (num 100)) (JNum (num 0)) (JStr ''order-1'')))
        = (jsonResp (Report (Error ''Liquidity pool is empty'')) 500, events, Map.empty)
        \<and> \<not> list_ex submits events \<and> \<not> list_ex writes events)"
proof -
  have empty: "fst (resolveReserves ''0x1234567890AbCdEf1234567890aBcDeF12345678''
          (ALX_CONTRACT_ADDRESS sample_env) 0 5) = 0"
    by (simp add: sample_resolve)
  have reads: "readPrices Direct (with_reserves 0 5 sample_world) (targetChain sample_env) sample_env
     = Inr (0, 5, ''0x1234567890AbCdEf1234567890aBcDeF12345678'', None)"
    by (simp add: sample_chain sample_reads)
  show ?thesis
    using empty
      empty_pool_aborts
        [where db = Map.empty and W = "with_reserves 0 5 sample_world",
         OF sample_request sample_fields sample_present sample_fresh sample_account(2) reads empty]
    by simp
qed

section \<open>Direct mode\<close>

text \<open>
  Claim C3, as the code has it.  In direct mode the handler submits
  \<open>quot (quot (scaled * alxReserve) usdtReserve * m) 10000\<close>, where \<open>scaled\<close> is
  \<^verbatim>\<open>parseEther(rwa_amount.toString())\<close>, \<open>m\<close> the offset multiplier and \<open>quot\<close> the BigInt
  division, which rounds towards zero.  For a requested value that is not negative the
  amount before the offset is the specification's \<open>floor\<close>; with offset 0 the multiplier
  is 10000 and the amount is submitted unchanged; and the specification's example
  (reserves \<open>2,000,000 * 10 ^ 18\<close> and \<open>1,000,000 * 10 ^ 18\<close>, value 100, offset 0) submits
  exactly \<open>200 * 10 ^ 18\<close>.
\<close>

theorem direct_mode_amount:
  assumes "\<not> unauthorized env req" and "http_method req = ''POST''" and "pathname req = ''/pay''"
    and "json req = Inr body"
    and "destructure body = Inr (address, rwa_amount, offset, order)"
    and "\<not> missing_parameters address rwa_amount offset order"
    and "\<not> truthy (DB_get db (DB_key W order))"
    and "privateKeyToAccount W (PRIVATE_KEY env) = Inr account"
    and "readPrices Direct W (targetChain env) env = Inr (reserve0, reserve1, token0, rate)"
    and "resolveReserves token0 (ALX_CONTRACT_ADDRESS env) reserve0 reserve1 = (alxReserve, usdtReserve)"
    and "alxReserve \<noteq> 0" and "usdtReserve \<noteq> 0"
    and "toString_js W rwa_amount = Inr decimal"
    and "parseEther W decimal = Inr scaled"
    and "multiplier (Number_js W offset) = Inr m"
  shows
    "Transfer (targetChain env) (ALX_CONTRACT_ADDRESS env) address
        (quot (quot (scaled * alxReserve) usdtReserve * m) 10000)
       \<in> set (fst (snd (fetch Direct W env db req)))
     \<and> (0 \<le> scaled \<longrightarrow>
          quot (scaled * alxReserve) usdtReserve = spec_direct scaled alxReserve usdtReserve)
     \<and> (Number_js W offset = num 0 \<longrightarrow>
          quot (quot (scaled * alxReserve) usdtReserve * m) 10000
            = quot (scaled * alxReserve) usdtReserve)
     \<and> (scaled = 100 * 10 ^ 18 \<and> alxReserve = 2000000 * 10 ^ 18
          \<and> usdtReserve = 1000000 * 10 ^ 18 \<and> Number_js W offset = num 0 \<longrightarrow>
          quot (quot (scaled * alxReserve) usdtReserve * m) 10000 = 200 * 10 ^ 18)"
proof -
  have direct: "rate = None"
    using assms(9) by (rule readPrices_Direct)
  have converted: "convert W rate alxReserve usdtReserve rwa_amount offset
      = Inr (quot (quot (scaled * alxReserve) usdtReserve * m) 10000)"
    using assms(12,15)
    by (simp add: convert_parsed [OF assms(13,14)] direct toAlx_def bigint_div_def
        applyOffset_multiplier)
  have sent: "Transfer (targetChain env) (ALX_CONTRACT_ADDRESS env) address
        (quot (quot (scaled * alxReserve) usdtReserve * m) 10000)
       \<in> set (fst (snd (fetch Direct W env db req)))"
    by (rule fetch_pay_submitted(1) [OF assms(1-11) converted])
  have positive: "0 \<le> alxReserve" "0 < usdtReserve"
    using resolveReserves_nonneg [OF assms(10)] assms(12) by simp_all
  have floor: "0 \<le> scaled \<longrightarrow>
      quot (scaled * alxReserve) usdtReserve = spec_direct scaled alxReserve usdtReserve"
    using positive by (simp add: quot_nonneg spec_direct_def)
  have unit: "Number_js W offset = num 0 \<longrightarrow> m = 10000"
    using assms(15) by (auto simp: float_samples)
  have no_offset: "Number_js W offset = num 0 \<longrightarrow>
      quot (quot (scaled * alxReserve) usdtReserve * m) 10000
        = quot (scaled * alxReserve) usdtReserve"
    using unit by (auto simp: quot_cancel)
  have example: "scaled = 100 * 10 ^ 18 \<and> alxReserve = 2000000 * 10 ^ 18
      \<and> usdtReserve = 1000000 * 10 ^ 18 \<and> Number_js W offset = num 0 \<longrightarrow>
      quot (quot (scaled * alxReserve) usdtReserve * m) 10000 = 200 * 10 ^ 18"
    using unit by (auto simp: quot_def)
  from sent floor no_offset example show ?thesis by blast
qed

theorem direct_mode_amount_witness:
  "fetch Direct sample_world sample_env Map.empty
     (pay_request (order_body (JNum (num 100)) (JNum (num 0)) (JStr ''order-1'')))
   = (jsonResp (Json (JObj [(''code'', JNum (num 200)),
        (''data'', resultData sample_world ''0xhash'' (200 * 10 ^ 18) (JNum (num 100)))])) 200,
      [KV_get ''order-1'',
       Read Bsc (PAIR_ADDRESS sample_env) ''getReserves'',
       Read Bsc (PAIR_ADDRESS sample_env) ''token0'',
       Transfer Bsc (ALX_CONTRACT_ADDRESS sample_env) recipient (200 * 10 ^ 18),
       KV_put ''order-1'' (resultData sample_world ''0xhash'' (200 * 10 ^ 18) (JNum (num 100)))],
      [''order-1'' \<mapsto> resultData sample_world ''0xhash'' (200 * 10 ^ 18) (JNum (num 100))])
   \<and> Transfer (targetChain sample_env) (ALX_CONTRACT_ADDRESS sample_env) recipient
        (quot (quot (100 * 10 ^ 18 * uint (2000000 * 10 ^ 18 :: 112 word))
                 (uint (1000000 * 10 ^ 18 :: 112 word)) * 10000) 10000)
       \<in> set (fst (snd (fetch Direct sample_world sample_env Map.empty
            (pay_request (order_body (JNum (num 100)) (JNum (num 0)) (JStr ''order-1''))))))
   \<and> quot (quot (100 * 10 ^ 18 * uint (2000000 * 10 ^ 18 :: 112 word))
                 (uint (1000000 * 10 ^ 18 :: 112 word)) * 10000) 10000 = 200 * 10 ^ 18"
proof -
  have reads: "readPrices Direct sample_world (targetChain sample_env) sample_env
     = Inr (2000000 * 10 ^ 18, 1000000 * 10 ^ 18,
            ''0x1234567890AbCdEf1234567890aBcDeF12345678'', None)"
    by (simp add: sample_chain sample_reads)
  have pool: "uint (2000000 * 10 ^ 18 :: 112 word) \<noteq> 0" "uint (1000000 * 10 ^ 18 :: 112 word) \<noteq> 0"
    by simp_all
  have unit: "multiplier (Number_js sample_world (JNum (num 0))) = Inr 10000"
    by (simp add: float_samples)
  note run = direct_mode_amount
    [where db = Map.empty and W = sample_world,
     OF sample_request sample_fields sample_present sample_fresh sample_account(1) reads
        sample_resolve pool sample_decimal(1) sample_scaled(1) unit]
  have amount: "quot (quot (100 * 10 ^ 18 * uint (2000000 * 10 ^ 18 :: 112 word))
                 (uint (1000000 * 10 ^ 18 :: 112 word)) * 10000) 10000 = 200 * 10 ^ 18"
    by (simp add: quot_def)
  have converted: "convert sample_world None (uint (2000000 * 10 ^ 18 :: 112 word))
      (uint (1000000 * 10 ^ 18 :: 112 word)) (JNum (num 100)) (JNum (num 0)) = Inr (200 * 10 ^ 18)"
    by (simp add: convert_parsed [OF sample_decimal(1) sample_scaled(1)] toAlx_def bigint_div_def
        applyOffset_multiplier [OF float_samples(1)] quot_def)
  have whole: "fetch Direct sample_world sample_env Map.empty
     (pay_request (order_body (JNum (num 100)) (JNum (num 0)) (JStr ''order-1'')))
   = (jsonResp (Json (JObj [(''code'', JNum (num 200)),
        (''data'', resultData sample_world ''0xhash'' (200 * 10 ^ 18) (JNum (num 100)))])) 200,
      [KV_get ''order-1'',
       Read Bsc (PAIR_ADDRESS sample_env) ''getReserves'',
       Read Bsc (PAIR_ADDRESS sample_env) ''token0'',
       Transfer Bsc (ALX_CONTRACT_ADDRESS sample_env) recipient (200 * 10 ^ 18),
       KV_put ''order-1'' (resultData sample_world ''0xhash'' (200 * 10 ^ 18) (JNum (num 100)))],
      [''order-1'' \<mapsto> resultData sample_world ''0xhash'' (200 * 10 ^ 18) (JNum (num 100))])"
    using fetch_pay_submits
      [where db = Map.empty and W = sample_world,
       OF sample_request sample_fields sample_present sample_fresh sample_account(1) reads
          sample_resolve pool(1) converted]
    by (simp add: sample_transfer sample_chain price_reads_def DB_key_def)
  from whole run amount show ?thesis by simp
qed

text \<open>
  The \<open>floor\<close> of the claim fails on a negative value: with reserves 1 and 3 and
  \<^verbatim>\<open>rwa_amount = -1\<close> the handler submits \<open>- 333333333333333333\<close>, where the
  specification's formula gives \<open>- 333333333333333334\<close>.
\<close>

theorem direct_mode_floor_counterexample:
  "parseEther (with_reserves 1 3 sample_world) ''-1'' = Inr (- (10 ^ 18))
   \<and> fetch Direct (with_reserves 1 3 sample_world) sample_env Map.empty
       (pay_request (order_body (JNum (num (- 1))) (JNum (num 0)) (JStr ''order-1'')))
     = (jsonResp (Report (Error ''IntegerOutOfRangeError'')) 500,
        [KV_get ''order-1'',
         Read Bsc (PAIR_ADDRESS sample_env) ''getReserves'',
         Read Bsc (PAIR_ADDRESS sample_env) ''token0'',
         Transfer Bsc (ALX_CONTRACT_ADDRESS sample_env) recipient (- 333333333333333333)],
        Map.empty)
   \<and> spec_direct (- (10 ^ 18)) 1 3 = - 333333333333333334"
proof -
  have reads: "readPrices Direct (with_reserves 1 3 sample_world) (targetChain sample_env) sample_env
     = Inr (1, 3, ''0x1234567890AbCdEf1234567890aBcDeF12345678'', None)"
    by (simp add: sample_chain sample_reads)
  have present: "\<not> missing_parameters recipient (JNum (num (- 1))) (JNum (num 0)) (JStr ''order-1'')"
    by (simp add: sample_present_fields sample_truthy)
  have pool: "uint (1 :: 112 word) \<noteq> 0"
    by simp
  have converted: "convert (with_reserves 1 3 sample_world) None (uint (1 :: 112 word))
      (uint (3 :: 112 word)) (JNum (num (- 1))) (JNum (num 0)) = Inr (- 333333333333333333)"
    by (simp add: convert_parsed [OF sample_decimal(5) sample_scaled(5)] toAlx_def bigint_div_def
        applyOffset_multiplier [OF float_samples(1)] quot_def)
  have run: "fetch Direct (with_reserves 1 3 sample_world) sample_env Map.empty
       (pay_request (order_body (JNum (num (- 1))) (JNum (num 0)) (JStr ''order-1'')))
     = (jsonResp (Report (Error ''IntegerOutOfRangeError'')) 500,
        [KV_get ''order-1'',
         Read Bsc (PAIR_ADDRESS sample_env) ''getReserves'',
         Read Bsc (PAIR_ADDRESS sample_env) ''token0'',
         Transfer Bsc (ALX_CONTRACT_ADDRESS sample_env) recipient (- 333333333333333333)],
        Map.empty)"
    using fetch_pay_submits
      [where db = Map.empty and W = "with_reserves 1 3 sample_world",
       OF sample_request sample_fields present sample_fresh sample_account(2) reads
          sample_resolve pool converted]
    by (simp add: sample_transfer sample_chain price_reads_def DB_key_def)
  have floor: "spec_direct (- (10 ^ 18)) 1 3 = - 333333333333333334"
    by (simp add: spec_direct_def)
  from run floor show ?thesis
    by (simp add: sample_scaled)
qed

section \<open>Oracle-adjusted mode\<close>

text \<open>
  Claim C4, as the code has it.  In oracle mode the rate is the \<^verbatim>\<open>answer\<close> of
  \<^verbatim>\<open>latestRoundData\<close>, and the handler submits
  \<open>quot (quot (quot (scaled * rate) 100000000 * alxReserve) usdtReserve * m) 10000\<close>.
  For a requested value and a rate that are not negative the amount before the offset
  is the specification's nested \<open>floor\<close>; with offset 0 it is submitted unchanged; and
  the specification's example (rate 14000000, value 700, reserves
  \<open>2,000,000 * 10 ^ 18\<close> and \<open>1,000,000 * 10 ^ 18\<close>, offset 0) submits exactly \<open>196 * 10 ^ 18\<close>.
\<close>

theorem oracle_mode_amount:
  assumes "\<not> unauthorized env req" and "http_method req = ''POST''" and "pathname req = ''/pay''"
    and "json req = Inr body"
    and "destructure body = Inr (address, rwa_amount, offset, order)"
    and "\<not> missing_parameters address rwa_amount offset order"
    and "\<not> truthy (DB_get db (DB_key W order))"
    and "privateKeyToAccount W (PRIVATE_KEY env) = Inr account"
    and "readPrices Oracle W (targetChain env) env = Inr (reserve0, reserve1, token0, rate)"
    and "resolveReserves token0 (ALX_CONTRACT_ADDRESS env) reserve0 reserve1 = (alxReserve, usdtReserve)"
    and "alxReserve \<noteq> 0" and "usdtReserve \<noteq> 0"
    and "toString_js W rwa_amount = Inr decimal"
    and "parseEther W decimal = Inr scaled"
    and "multiplier (Number_js W offset) = Inr m"
  shows
    "\<exists>roundId answer startedAt updatedAt answeredInRound.
        read_latestRoundData W Mainnet (CHAINLINK_ORACLE_ADDRESS env)
          = Inr (roundId, answer, startedAt, updatedAt, answeredInRound)
        \<and> Transfer (targetChain env) (ALX_CONTRACT_ADDRESS env) address
             (quot (quot (quot (scaled * sint answer) 100000000 * alxReserve) usdtReserve * m) 10000)
            \<in> set (fst (snd (fetch Oracle W env db req)))
        \<and> (0 \<le> scaled \<and> 0 \<le> sint answer \<longrightarrow>
             quot (quot (scaled * sint answer) 100000000 * alxReserve) usdtReserve
               = spec_oracle scaled (sint answer) alxReserve usdtReserve)
        \<and> (Number_js W offset = num 0 \<longrightarrow>
             quot (quot (quot (scaled * sint answer) 100000000 * alxReserve) usdtReserve * m) 10000
               = quot (quot (scaled * sint answer) 100000000 * alxReserve) usdtReserve)
        \<and> (scaled = 700 * 10 ^ 18 \<and> sint answer = 14000000 \<and> alxReserve = 2000000 * 10 ^ 18
             \<and> usdtReserve = 1000000 * 10 ^ 18 \<and> Number_js W offset = num 0 \<longrightarrow>
             quot (quot (quot (scaled * sint answer) 100000000 * alxReserve) usdtReserve * m) 10000
               = 196 * 10 ^ 18)"
proof -
  obtain roundId answer startedAt updatedAt answeredInRound
    where feed: "read_latestRoundData W Mainnet (CHAINLINK_ORACLE_ADDRESS env)
          = Inr (roundId, answer, startedAt, updatedAt, answeredInRound)"
      and rate: "rate = Some (sint answer)"
    using readPrices_Oracle [OF assms(9)] by blast
  let ?usdt = "quot (scaled * sint answer) 100000000"
  let ?alx = "quot (?usdt * alxReserve) usdtReserve"
  have converted: "convert W rate alxReserve usdtReserve rwa_amount offset
      = Inr (quot (?alx * m) 10000)"
    using assms(12,15)
    by (simp add: convert_parsed [OF assms(13,14)] rate toAlx_def bigint_div_def
        applyOffset_multiplier)
  have sent: "Transfer (targetChain env) (ALX_CONTRACT_ADDRESS env) address (quot (?alx * m) 10000)
       \<in> set (fst (snd (fetch Oracle W env db req)))"
    by (rule fetch_pay_submitted(1) [OF assms(1-11) converted])
  have positive: "0 \<le> alxReserve" "0 < usdtReserve"
    using resolveReserves_nonneg [OF assms(10)] assms(12) by simp_all
  have floor: "0 \<le> scaled \<and> 0 \<le> sint answer \<longrightarrow>
      ?alx = spec_oracle scaled (sint answer) alxReserve usdtReserve"
  proof
    assume signs: "0 \<le> scaled \<and> 0 \<le> sint answer"
    then have first: "?usdt = (scaled * sint answer) div 10 ^ 8"
      by (simp add: quot_nonneg)
    have "0 \<le> (scaled * sint answer) div 10 ^ 8"
      using signs by (simp add: pos_imp_zdiv_nonneg_iff)
    then have "0 \<le> ?usdt * alxReserve"
      using positive(1) first by simp
    then show "?alx = spec_oracle scaled (sint answer) alxReserve usdtReserve"
      using positive(2) first by (simp add: quot_nonneg spec_oracle_def)
  qed
  have unit: "Number_js W offset = num 0 \<longrightarrow> m = 10000"
    using assms(15) by (auto simp: float_samples)
  have no_offset: "Number_js W offset = num 0 \<longrightarrow> quot (?alx * m) 10000 = ?alx"
    using unit by (auto simp: quot_cancel)
  have example: "scaled = 700 * 10 ^ 18 \<and> sint answer = 14000000 \<and> alxReserve = 2000000 * 10 ^ 18
      \<and> usdtReserve = 1000000 * 10 ^ 18 \<and> Number_js W offset = num 0 \<longrightarrow>
      quot (?alx * m) 10000 = 196 * 10 ^ 18"
    using unit by (auto simp: quot_def)
  from feed sent floor no_offset example show ?thesis by blast
qed

theorem oracle_mode_amount_witness:
  "fetch Oracle sample_world sample_env Map.empty
     (pay_request (order_body (JNum (num 700)) (JNum (num 0)) (JStr ''order-1'')))
   = (jsonResp (Json (JObj [(''code'', JNum (num 200)),
        (''data'', resultData sample_world ''0xhash'' (196 * 10 ^ 18) (JNum (num 700)))])) 200,
      [KV_get ''order-1'',
       Read Bsc (PAIR_ADDRESS sample_env) ''getReserves'',
       Read Bsc (PAIR_ADDRESS sample_env) ''token0'',
       Read Mainnet (CHAINLINK_ORACLE_ADDRESS sample_env) ''latestRoundData'',
       Transfer Bsc (ALX_CONTRACT_ADDRESS sample_env) recipient (196 * 10 ^ 18),
       KV_put ''order-1'' (resultData sample_world ''0xhash'' (196 * 10 ^ 18) (JNum (num 700)))],
      [''order-1'' \<mapsto> resultData sample_world ''0xhash'' (196 * 10 ^ 18) (JNum (num 700))])
   \<and> Transfer Bsc (ALX_CONTRACT_ADDRESS sample_env) recipient (196 * 10 ^ 18)
       \<in> set (fst (snd (fetch Oracle sample_world sample_env Map.empty
            (pay_request (order_body (JNum (num 700)) (JNum (num 0)) (JStr ''order-1''))))))"
proof -
  have reads: "readPrices Oracle sample_world (targetChain sample_env) sample_env
     = Inr (2000000 * 10 ^ 18, 1000000 * 10 ^ 18,
            ''0x1234567890AbCdEf1234567890aBcDeF12345678'', Some 14000000)"
    by (simp add: sample_chain sample_reads)
  have present: "\<not> missing_parameters recipient (JNum (num 700)) (JNum (num 0)) (JStr ''order-1'')"
    by (simp add: sample_present_fields sample_truthy)
  have pool: "uint (2000000 * 10 ^ 18 :: 112 word) \<noteq> 0" "uint (1000000 * 10 ^ 18 :: 112 word) \<noteq> 0"
    by simp_all
  have unit: "multiplier (Number_js sample_world (JNum (num 0))) = Inr 10000"
    by (simp add: float_samples)
  note run = oracle_mode_amount
    [where db = Map.empty and W = sample_world,
     OF sample_request sample_fields present sample_fresh sample_account(1) reads
        sample_resolve pool sample_decimal(2) sample_scaled(2) unit]
  then obtain roundId answer startedAt updatedAt answeredInRound
    where feed: "read_latestRoundData sample_world Mainnet (CHAINLINK_ORACLE_ADDRESS sample_env)
          = Inr (roundId, answer, startedAt, updatedAt, answeredInRound)"
      and sent: "Transfer (targetChain sample_env) (ALX_CONTRACT_ADDRESS sample_env) recipient
             (quot (quot (quot (700 * 10 ^ 18 * sint answer) 100000000
                * uint (2000000 * 10 ^ 18 :: 112 word)) (uint (1000000 * 10 ^ 18 :: 112 word))
                * 10000) 10000)
            \<in> set (fst (snd (fetch Oracle sample_world sample_env Map.empty
                 (pay_request (order_body (JNum (num 700)) (JNum (num 0)) (JStr ''order-1''))))))"
    by blast
  from feed have "answer = 14000000"
    by (simp add: sample_world_def)
  with sent have submitted: "Transfer Bsc (ALX_CONTRACT_ADDRESS sample_env) recipient (196 * 10 ^ 18)
       \<in> set (fst (snd (fetch Oracle sample_world sample_env Map.empty
            (pay_request (order_body (JNum (num 700)) (JNum (num 0)) (JStr ''order-1''))))))"
    by (simp add: quot_def sample_chain)
  have converted: "convert sample_world (Some 14000000) (uint (2000000 * 10 ^ 18 :: 112 word))
      (uint (1000000 * 10 ^ 18 :: 112 word)) (JNum (num 700)) (JNum (num 0)) = Inr (196 * 10 ^ 18)"
    by (simp add: convert_parsed [OF sample_decimal(2) sample_scaled(2)] toAlx_def bigint_div_def
        applyOffset_multiplier [OF float_samples(1)] quot_def)
  have whole: "fetch Oracle sample_world sample_env Map.empty
     (pay_request (order_body (JNum (num 700)) (JNum (num 0)) (JStr ''order-1'')))
   = (jsonResp (Json (JObj [(''code'', JNum (num 200)),
        (''data'', resultData sample_world ''0xhash'' (196 * 10 ^ 18) (JNum (num 700)))])) 200,
      [KV_get ''order-1'',
       Read Bsc (PAIR_ADDRESS sample_env) ''getReserves'',
       Read Bsc (PAIR_ADDRESS sample_env) ''token0'',
       Read Mainnet (CHAINLINK_ORACLE_ADDRESS sample_env) ''latestRoundData'',
       Transfer Bsc (ALX_CONTRACT_ADDRESS sample_env) recipient (196 * 10 ^ 18),
       KV_put ''order-1'' (resultData sample_world ''0xhash'' (196 * 10 ^ 18) (JNum (num 700)))],
      [''order-1'' \<mapsto> resultData sample_world ''0xhash'' (196 * 10 ^ 18) (JNum (num 700))])"
    using fetch_pay_submits
      [where db = Map.empty and W = sample_world,
       OF sample_request sample_fields present sample_fresh sample_account(1) reads
          sample_resolve pool(1) converted]
    by (simp add: sample_transfer sample_chain price_reads_def DB_key_def)
  from whole submitted show ?thesis by simp
qed

text \<open>
  Again the \<open>floor\<close> fails on a negative value: with reserves 1 and 3, rate 14000000 and
  \<^verbatim>\<open>rwa_amount = -7\<close> the handler submits \<open>- 326666666666666666\<close>, the specification's
  formula gives \<open>- 326666666666666667\<close>.
\<close>

theorem oracle_mode_floor_counterexample:
  "parseEther (with_reserves 1 3 sample_world) ''-7'' = Inr (- (7 * 10 ^ 18))
   \<and> fetch Oracle (with_reserves 1 3 sample_world) sample_env Map.empty
       (pay_request (order_body (JNum (num (- 7))) (JNum (num 0)) (JStr ''order-1'')))
     = (jsonResp (Report (Error ''IntegerOutOfRangeError'')) 500,
        [KV_get ''order-1'',
         Read Bsc (PAIR_ADDRESS sample_env) ''getReserves'',
         Read Bsc (PAIR_ADDRESS sample_env) ''token0'',
         Read Mainnet (CHAINLINK_ORACLE_ADDRESS sample_env) ''latestRoundData'',
         Transfer Bsc (ALX_CONTRACT_ADDRESS sample_env) recipient (- 326666666666666666)],
        Map.empty)
   \<and> spec_oracle (- (7 * 10 ^ 18)) 14000000 1 3 = - 326666666666666667"
proof -
  have reads: "readPrices Oracle (with_reserves 1 3 sample_world) (targetChain sample_env) sample_env
     = Inr (1, 3, ''0x1234567890AbCdEf1234567890aBcDeF12345678'', Some 14000000)"
    by (simp add: sample_chain sample_reads)
  have present: "\<not> missing_parameters recipient (JNum (num (- 7))) (JNum (num 0)) (JStr ''order-1'')"
    by (simp add: sample_present_fields sample_truthy)
  have pool: "uint (1 :: 112 word) \<noteq> 0"
    by simp
  have converted: "convert (with_reserves 1 3 sample_world) (Some 14000000) (uint (1 :: 112 word))
      (uint (3 :: 112 word)) (JNum (num (- 7))) (JNum (num 0)) = Inr (- 326666666666666666)"
    by (simp add: convert_parsed [OF sample_decimal(6) sample_scaled(6)] toAlx_def bigint_div_def
        applyOffset_multiplier [OF float_samples(1)] quot_def)
  have run: "fetch Oracle (with_reserves 1 3 sample_world) sample_env Map.empty
       (pay_request (order_body (JNum (num (- 7))) (JNum (num 0)) (JStr ''order-1'')))
     = (jsonResp (Report (Error ''IntegerOutOfRangeError'')) 500,
        [KV_get ''order-1'',
         Read Bsc (PAIR_ADDRESS sample_env) ''getReserves'',
         Read Bsc (PAIR_ADDRESS sample_env) ''token0'',
         Read Mainnet (CHAINLINK_ORACLE_ADDRESS sample_env) ''latestRoundData'',
         Transfer Bsc (ALX_CONTRACT_ADDRESS sample_env) recipient (- 326666666666666666)],
        Map.empty)"
    using fetch_pay_submits
      [where db = Map.empty and W = "with_reserves 1 3 sample_world",
       OF sample_request sample_fields present sample_fresh sample_account(2) reads
          sample_resolve pool converted]
    by (simp add: sample_transfer sample_chain price_reads_def DB_key_def)
  have floor: "spec_oracle (- (7 * 10 ^ 18)) 14000000 1 3 = - 326666666666666667"
    by (simp add: spec_oracle_def)
  from run floor show ?thesis
    by (simp add: sample_scaled)
qed

section \<open>Offset\<close>




section \<open>Offsets below minus one hundred per cent\<close>




section \<open>Failed requests\<close>

text \<open>
  Claim C7.  For an authenticated \<^verbatim>\<open>POST /pay\<close> that has passed the field check and found
  no record of its order: a rejected contract read, an exception in the conversion, and
  a rejected transfer submission each end the request with status 500, the exception
  reported, and the store as it was.  And whenever a \<^verbatim>\<open>POST /pay\<close> is answered 500, the
  store is unchanged and no write to it was issued, so the order's key is still absent
  and the same request is not a duplicate when it is sent again.
\<close>

theorem failed_stage_leaves_store:
  assumes "\<not> unauthorized env req" and "http_method req = ''POST''" and "pathname req = ''/pay''"
    and "json req = Inr body"
    and "destructure body = Inr (address, rwa_amount, offset, order)"
    and "\<not> missing_parameters address rwa_amount offset order"
    and "\<not> truthy (DB_get db (DB_key W order))"
    and "privateKeyToAccount W (PRIVATE_KEY env) = Inr account"
  shows
    "(\<forall>e. readPrices v W (targetChain env) env = Inl e \<longrightarrow>
        fetch v W env db req =
          (jsonResp (Report e) 500,
           KV_get (DB_key W order) # price_reads v (targetChain env) env, db))
     \<and> (\<forall>reserve0 reserve1 token0 rate alxReserve usdtReserve.
          readPrices v W (targetChain env) env = Inr (reserve0, reserve1, token0, rate)
          \<and> resolveReserves token0 (ALX_CONTRACT_ADDRESS env) reserve0 reserve1
              = (alxReserve, usdtReserve)
          \<and> alxReserve \<noteq> 0 \<longrightarrow>
          (\<forall>e. convert W rate alxReserve usdtReserve rwa_amount offset = Inl e \<longrightarrow>
             fetch v W env db req =
               (jsonResp (Report e) 500,
                KV_get (DB_key W order) # price_reads v (targetChain env) env, db))
          \<and> (\<forall>e sendAmount.
                convert W rate alxReserve usdtReserve rwa_amount offset = Inr sendAmount
                \<and> write_transfer W (targetChain env) account (ALX_CONTRACT_ADDRESS env)
                      address sendAmount = Inl e \<longrightarrow>
                fetch v W env db req =
                  (jsonResp (Report e) 500,
                   KV_get (DB_key W order) # price_reads v (targetChain env) env
                   @ [Transfer (targetChain env) (ALX_CONTRACT_ADDRESS env) address sendAmount],
                   db)))
     \<and> (\<forall>b events db'.
          fetch v W env db req = (Response 500 b, events, db') \<longrightarrow>
          db' = db \<and> \<not> list_ex writes events)"
proof -
  have entered: "fetch v W env db req =
     (case settle v W env address rwa_amount offset of
        (Inl e, events) \<Rightarrow> (jsonResp (Report e) 500, KV_get (DB_key W order) # events, db)
      | (Inr record, events) \<Rightarrow>
          (jsonResp (Json (JObj [(''code'', JNum (num 200)), (''data'', record)])) 200,
           KV_get (DB_key W order) # events @ [KV_put (DB_key W order) record],
           db(DB_key W order \<mapsto> record)))"
    using assms by (simp add: fetch_pay pay_entered)
  have reads: "\<forall>e. readPrices v W (targetChain env) env = Inl e \<longrightarrow>
        fetch v W env db req =
          (jsonResp (Report e) 500,
           KV_get (DB_key W order) # price_reads v (targetChain env) env, db)"
    using assms(8) by (simp add: entered settle_read_fails)
  have later: "\<forall>reserve0 reserve1 token0 rate alxReserve usdtReserve.
          readPrices v W (targetChain env) env = Inr (reserve0, reserve1, token0, rate)
          \<and> resolveReserves token0 (ALX_CONTRACT_ADDRESS env) reserve0 reserve1
              = (alxReserve, usdtReserve)
          \<and> alxReserve \<noteq> 0 \<longrightarrow>
          (\<forall>e. convert W rate alxReserve usdtReserve rwa_amount offset = Inl e \<longrightarrow>
             fetch v W env db req =
               (jsonResp (Report e) 500,
                KV_get (DB_key W order) # price_reads v (targetChain env) env, db))
          \<and> (\<forall>e sendAmount.
                convert W rate alxReserve usdtReserve rwa_amount offset = Inr sendAmount
                \<and> write_transfer W (targetChain env) account (ALX_CONTRACT_ADDRESS env)
                      address sendAmount = Inl e \<longrightarrow>
                fetch v W env db req =
                  (jsonResp (Report e) 500,
                   KV_get (DB_key W order) # price_reads v (targetChain env) env
                   @ [Transfer (targetChain env) (ALX_CONTRACT_ADDRESS env) address sendAmount],
                   db))"
    using assms(8) by (auto simp: entered settle_convert_fails settle_submits)
  have kept: "\<forall>b events db'.
          fetch v W env db req = (Response 500 b, events, db') \<longrightarrow>
          db' = db \<and> \<not> list_ex writes events"
    using assms(1-3) pay_failure_keeps_store [of v W env db req] by (simp add: fetch_pay)
  from reads later kept show ?thesis by blast
qed

theorem failed_stage_leaves_store_witness:
  "write_transfer (rejecting_transfers sample_world) (targetChain sample_env)
      ''0x00000000000000000000000000000000000000cc'' (ALX_CONTRACT_ADDRESS sample_env)
      recipient (200 * 10 ^ 18) = Inl (Error ''insufficient funds'')
   \<and> fetch Direct (rejecting_transfers sample_world) sample_env Map.empty
       (pay_request (order_body (JNum (num 100)) (JNum (num 0)) (JStr ''order-1'')))
     = (jsonResp (Report (Error ''insufficient funds'')) 500,
        [KV_get ''order-1'',
         Read Bsc (PAIR_ADDRESS sample_env) ''getReserves'',
         Read Bsc (PAIR_ADDRESS sample_env) ''token0'',
         Transfer Bsc (ALX_CONTRACT_ADDRESS sample_env) recipient (200 * 10 ^ 18)],
        Map.empty)"
proof -
  have reads: "readPrices Direct (rejecting_transfers sample_world) (targetChain sample_env) sample_env
     = Inr (2000000 * 10 ^ 18, 1000000 * 10 ^ 18,
            ''0x1234567890AbCdEf1234567890aBcDeF12345678'', None)"
    by (simp add: sample_chain sample_reads)
  have pool: "uint (2000000 * 10 ^ 18 :: 112 word) \<noteq> 0"
    by simp
  have converted: "convert (rejecting_transfers sample_world) None
      (uint (2000000 * 10 ^ 18 :: 112 word)) (uint (1000000 * 10 ^ 18 :: 112 word))
      (JNum (num 100)) (JNum (num 0)) = Inr (200 * 10 ^ 18)"
    by (simp add: convert_parsed [OF sample_decimal(3) sample_scaled(3)] toAlx_def bigint_div_def
        applyOffset_multiplier [OF float_samples(1)] quot_def)
  have rejected: "write_transfer (rejecting_transfers sample_world) (targetChain sample_env)
      ''0x00000000000000000000000000000000000000cc'' (ALX_CONTRACT_ADDRESS sample_env)
      recipient (200 * 10 ^ 18) = Inl (Error ''insufficient funds'')"
    by (simp add: sample_transfer)
  note stages = failed_stage_leaves_store
    [where db = Map.empty and W = "rejecting_transfers sample_world" and v = Direct,
     OF sample_request sample_fields sample_present sample_fresh sample_account(3)]
  from stages reads sample_resolve pool converted rejected
  have "fetch Direct (rejecting_transfers sample_world) sample_env Map.empty
       (pay_request (order_body (JNum (num 100)) (JNum (num 0)) (JStr ''order-1'')))
     = (jsonResp (Report (Error ''insufficient funds'')) 500,
        KV_get (DB_key (rejecting_transfers sample_world) (JStr ''order-1''))
        # price_reads Direct (targetChain sample_env) sample_env
        @ [Transfer (targetChain sample_env) (ALX_CONTRACT_ADDRESS sample_env) recipient
             (200 * 10 ^ 18)],
        Map.empty)"
    by blast
  with rejected show ?thesis
    by (simp add: sample_chain price_reads_def DB_key_def)
qed

section \<open>Authentication\<close>

text \<open>
  Claim C8.  A request of any method and path whose \<^verbatim>\<open>X-API-KEY\<close> header is absent or is
  not the configured secret is answered 401, with no event at all (no store read, no
  store write, no chain call) and the store as it was.
\<close>

theorem unauthenticated_request_no_effects:
  assumes "X_API_KEY req = None \<or> X_API_KEY req \<noteq> Some (API_KEY env)"
  shows "fetch v W env db req =
    (jsonResp (Json (JObj [(''error'', JStr ''Unauthorized: Invalid API Key'')])) 401, [], db)"
  using assms by (auto simp: fetch_def unauthorized_def split: option.splits)

theorem unauthenticated_request_no_effects_witness:
  "X_API_KEY ((pay_request JNull)\<lparr>X_API_KEY := Some ''guess''\<rparr>) \<noteq> Some (API_KEY sample_env)
   \<and> fetch Direct sample_world sample_env sample_store ((pay_request JNull)\<lparr>X_API_KEY := Some ''guess''\<rparr>)
     = (jsonResp (Json (JObj [(''error'', JStr ''Unauthorized: Invalid API Key'')])) 401, [],
        sample_store)
   \<and> fetch Oracle sample_world sample_env sample_store ((pay_request JNull)\<lparr>X_API_KEY := None\<rparr>)
     = (jsonResp (Json (JObj [(''error'', JStr ''Unauthorized: Invalid API Key'')])) 401, [],
        sample_store)"
proof -
  have wrong: "X_API_KEY ((pay_request JNull)\<lparr>X_API_KEY := Some ''guess''\<rparr>) \<noteq> Some (API_KEY sample_env)"
    by (simp add: sample_env_def)
  have absent: "X_API_KEY ((pay_request JNull)\<lparr>X_API_KEY := None\<rparr>) = None"
    by simp
  show ?thesis
    using wrong unauthenticated_request_no_effects [OF disjI2 [OF wrong]]
      unauthenticated_request_no_effects [OF disjI1 [OF absent]]
    by simp
qed

section \<open>Token and reference reserve\<close>

text \<open>
  Claim C9.  \<open>resolveReserves\<close> yields \<open>(reserve0, reserve1)\<close> as (settlement, reference)
  reserve exactly when \<^verbatim>\<open>token0\<close> and the configured ALX address are equal under
  case-insensitive comparison, and the swapped pair otherwise; writing either address
  in another casing does not change the result.
\<close>

theorem reserves_resolved_ignoring_case:
  "resolveReserves token0 alx reserve0 reserve1 =
     (if eq_ignore_case token0 alx then (uint reserve0, uint reserve1)
      else (uint reserve1, uint reserve0))
   \<and> (eq_ignore_case token0 token0' \<and> eq_ignore_case alx alx' \<longrightarrow>
        resolveReserves token0' alx' reserve0 reserve1 = resolveReserves token0 alx reserve0 reserve1)"
  by (auto simp: resolveReserves_def toLowerCase_eq_iff [symmetric])

theorem reserves_resolved_ignoring_case_witness:
  "eq_ignore_case ''0x1234567890AbCdEf1234567890aBcDeF12345678'' ''0X1234567890ABCDEF1234567890ABCDEF12345678''
   \<and> eq_ignore_case ''0x1234567890abcdef1234567890abcdef12345678'' ''0x1234567890abcdef1234567890abcdef12345678''
   \<and> resolveReserves ''0X1234567890ABCDEF1234567890ABCDEF12345678''
        ''0x1234567890abcdef1234567890abcdef12345678'' 7 9 = (7, 9)
   \<and> resolveReserves ''0x1234567890AbCdEf1234567890aBcDeF12345678''
        ''0x1234567890abcdef1234567890abcdef12345678'' 7 9 = (7, 9)
   \<and> resolveReserves ''0x55d398326f99059ff775485246999027b3197955''
        ''0x1234567890abcdef1234567890abcdef12345678'' 7 9 = (9, 7)"
proof -
  have same: "eq_ignore_case ''0x1234567890AbCdEf1234567890aBcDeF12345678''
      ''0X1234567890ABCDEF1234567890ABCDEF12345678''"
    by (simp add: toLowerCase_eq_iff [symmetric] sample_token0_lower)
  have alx: "eq_ignore_case ''0x1234567890abcdef1234567890abcdef12345678''
      ''0x1234567890abcdef1234567890abcdef12345678''"
    by (simp add: toLowerCase_eq_iff [symmetric])
  have here: "resolveReserves ''0x1234567890AbCdEf1234567890aBcDeF12345678''
        ''0x1234567890abcdef1234567890abcdef12345678'' 7 9 = (7, 9)"
    by (simp add: resolveReserves_def sample_token0_lower)
  have other: "resolveReserves ''0x55d398326f99059ff775485246999027b3197955''
        ''0x1234567890abcdef1234567890abcdef12345678'' 7 9 = (9, 7)"
    by (simp add: resolveReserves_def sample_token0_lower)
  from same alx here other show ?thesis
    using reserves_resolved_ignoring_case
      [of "''0x1234567890AbCdEf1234567890aBcDeF12345678''"
          "''0x1234567890abcdef1234567890abcdef12345678''" 7 9
          "''0X1234567890ABCDEF1234567890ABCDEF12345678''"
          "''0x1234567890abcdef1234567890abcdef12345678''"]
    by simp
qed

section \<open>Field check\<close>



end
